theory Spec2Isabelle
  imports Complex_Main
begin

section \<open>The webcam classifier of WebcamClassifier.js\<close>

text \<open>
  The class \<^verbatim>\<open>WebcamClassifier\<close> keeps, per class, a matrix of recorded feature vectors
  and a count, and a cached concatenation of all the matrices. The embedding keeps the
  fields the recording, clearing and classification code reads and writes. The tensor
  library (deeplearn.js) and the network (SqueezeNet) are not among the sources: a
  feature vector is a value of an arbitrary type \<open>'v\<close>, an NDArray holding rows of
  feature vectors is the list of its rows, \<^verbatim>\<open>concat3D\<close> along axis 0 is list append,
  and \<^verbatim>\<open>dispose\<close>, \<^verbatim>\<open>keep\<close>, \<^verbatim>\<open>track\<close> and \<^verbatim>\<open>scope\<close> (memory management of the
  library) change no value and are left out where they are called on an array; a
  \<^verbatim>\<open>dispose\<close> called on \<^verbatim>\<open>null\<close> throws and is kept.
\<close>

subsection \<open>Constants\<close>

definition TOPK :: nat where
  "TOPK = 10"

definition CLASS_COUNT :: nat where
  "CLASS_COUNT = 3"

definition MEASURE_TIMING_EVERY_NUM_FRAMES :: nat where
  "MEASURE_TIMING_EVERY_NUM_FRAMES = 20"

subsection \<open>Values, errors and the classifier's fields\<close>

text \<open>
  Reading a JavaScript array gives \<^verbatim>\<open>undefined\<close> outside its range, and a slot of
  \<^verbatim>\<open>trainClassLogitsMatrices\<close> holds \<^verbatim>\<open>null\<close> or an NDArray.
\<close>

datatype 'a slot = Undefined | Null | Obj 'a

text \<open>
  \<open>TypeError\<close>: a property of \<^verbatim>\<open>null\<close> or \<^verbatim>\<open>undefined\<close> is read or called.
  \<open>ShapeError\<close>: the library refuses a reshape (\<^verbatim>\<open>as2D\<close>, \<^verbatim>\<open>as3D\<close>) whose shape does
  not hold the array's number of elements.
  \<open>OutsideCounts\<close> is no exception of JavaScript: it marks a write to a slot outside
  \<^verbatim>\<open>classExampleCount\<close>, after which the array would hold \<^verbatim>\<open>undefined\<close> or \<^verbatim>\<open>NaN\<close>
  entries, values a list of naturals does not have. The model stops there. The arrays
  of the constructor have \<^verbatim>\<open>CLASS_COUNT\<close> slots each and no operation resizes them, so
  the case asks for a state with arrays of different lengths.
\<close>

datatype js_error = TypeError | ShapeError | OutsideCounts

text \<open>
  An operation returns normally (\<open>Ok\<close>) or throws (\<open>Threw\<close>); a throw keeps the
  assignments made before it, so both carry the state reached.
\<close>

datatype 's outcome = Ok 's | Threw js_error 's

type_synonym 'v ndarray = "'v list"

text \<open>
  \<open>current\<close> is the index of the class object \<^verbatim>\<open>this.current\<close> points to (\<open>None\<close>:
  \<^verbatim>\<open>null\<close>); \<open>sampleCount\<close> lists \<^verbatim>\<open>this.classes[name].sampleCount\<close> by class index, one
  entry per class of \<^verbatim>\<open>options.classes\<close>. The names of \<^verbatim>\<open>options.classes\<close> are taken to be
  distinct: the source keys \<^verbatim>\<open>this.classes\<close> by name, so two classes of one name would
  share one class object.
\<close>

record 'v classifier =
  isDown :: bool
  current :: "nat option"
  sampleCount :: "nat list"
  trainLogitsMatrix :: "'v ndarray option"
  trainClassLogitsMatrices :: "'v ndarray option list"
  classExampleCount :: "nat list"
  measureTimingCounter :: nat

text \<open>
  \<open>Quotient a b\<close> stands for the double that \<^verbatim>\<open>a / b\<close> gives in JavaScript for the two
  integers: the pair is kept and nothing is rounded.
\<close>

datatype js_quotient = Quotient nat nat

text \<open>
  What a call hands on. \<open>SampleCallback\<close> and \<open>SetConfidences\<close> are calls of the caller's
  callbacks. \<open>Pending numExamples indices\<close> is the closure \<^verbatim>\<open>computeConfidences\<close> that a
  classification tick hands to \<^verbatim>\<open>getValuesAsync().then\<close> or to \<^verbatim>\<open>setTimeout\<close>: it runs later,
  after whatever is called in between, with the \<^verbatim>\<open>numExamples\<close> and the \<^verbatim>\<open>knn\<close> of its tick;
  \<open>indices\<close> are the indices its \<^verbatim>\<open>mathCPU.topK(knn, kVal)\<close> will give.
\<close>

datatype emitted =
  NoCallback | SampleCallback nat | SetConfidences "js_quotient list" | Pending nat "nat list"

definition read_slot :: "'a option list \<Rightarrow> nat \<Rightarrow> 'a slot" where
  "read_slot xs i =
     (if i < length xs then (case xs ! i of None \<Rightarrow> Null | Some a \<Rightarrow> Obj a) else Undefined)"

definition read_count :: "nat list \<Rightarrow> nat \<Rightarrow> nat option" where
  "read_count xs i = (if i < length xs then Some (xs ! i) else None)"

text \<open>
  \<^verbatim>\<open>m.as3D(rows, INPUT_SIZE, 1)\<close> and \<^verbatim>\<open>m.as2D(rows, 1000)\<close> on an array of feature
  vectors: the same rows under a new shape, refused when \<open>rows\<close> is not the number of
  rows held (\<open>None\<close>: the row count read was \<^verbatim>\<open>undefined\<close>).
\<close>

definition reshape_rows :: "'v ndarray \<Rightarrow> nat option \<Rightarrow> js_error + 'v ndarray" where
  "reshape_rows m rows = (if rows = Some (length m) then Inr m else Inl ShapeError)"

subsection \<open>constructor\<close>

function ctor_loop ::
  "nat \<Rightarrow> 'v ndarray option list \<times> nat list \<Rightarrow> 'v ndarray option list \<times> nat list" where
  "ctor_loop index (ms, cs) =
     (if index < CLASS_COUNT then ctor_loop (index + 1) (ms @ [None], cs @ [0]) else (ms, cs))"
  by pat_completeness auto
termination
  by (relation "measure (\<lambda>(index, _). CLASS_COUNT - index)") auto

text \<open>\<open>numClasses\<close> is the length of \<^verbatim>\<open>options.classes\<close>.\<close>

definition new_classifier :: "nat \<Rightarrow> 'v classifier" where
  "new_classifier numClasses =
     (let (ms, cs) = ctor_loop 0 ([], []) in
      \<lparr> isDown = False, current = None, sampleCount = replicate numClasses 0,
        trainLogitsMatrix = None, trainClassLogitsMatrices = ms, classExampleCount = cs,
        measureTimingCounter = 0 \<rparr>)"

subsection \<open>buttonDown, buttonUp\<close>

text \<open>
  \<^verbatim>\<open>buttonDown(id)\<close>, with the class named \<open>id\<close> given by its index: for a name that is
  no class, \<^verbatim>\<open>this.classes[id]\<close> is \<^verbatim>\<open>undefined\<close> and the read of its \<^verbatim>\<open>classObj\<close> throws
  after the first two assignments.
\<close>

definition buttonDown :: "nat \<Rightarrow> 'v classifier \<Rightarrow> 'v classifier outcome" where
  "buttonDown i s =
     (if i < length (sampleCount s) then Ok (s\<lparr>current := Some i, isDown := True\<rparr>)
      else Threw TypeError (s\<lparr>current := None, isDown := True\<rparr>))"

definition buttonUp :: "'v classifier \<Rightarrow> 'v classifier" where
  "buttonUp s = s\<lparr>isDown := False, current := None\<rparr>"

subsection \<open>deleteClassData\<close>

text \<open>
  The statements of the body in their order: the class matrix is set to \<^verbatim>\<open>null\<close>, then
  \<^verbatim>\<open>this.trainLogitsMatrix.dispose()\<close> is called, which throws when the cached matrix is
  \<^verbatim>\<open>null\<close>; then the cache and the two counts are reset. The last statement reads
  \<^verbatim>\<open>this.classes[this.classNames[index]]\<close>, \<^verbatim>\<open>undefined\<close> for an index that is no class.
\<close>

definition deleteClassData :: "nat \<Rightarrow> 'v classifier \<Rightarrow> 'v classifier outcome" where
  "deleteClassData index s =
     (case read_slot (trainClassLogitsMatrices s) index of
        Obj m \<Rightarrow>
          (let s1 = s\<lparr>trainClassLogitsMatrices := (trainClassLogitsMatrices s)[index := None]\<rparr> in
           case trainLogitsMatrix s1 of
             None \<Rightarrow> Threw TypeError s1
           | Some t \<Rightarrow>
               (let s2 = s1\<lparr>trainLogitsMatrix := None\<rparr> in
                if index < length (classExampleCount s2) then
                  (let s3 = s2\<lparr>classExampleCount := (classExampleCount s2)[index := 0]\<rparr> in
                   if index < length (sampleCount s3)
                   then Ok (s3\<lparr>sampleCount := (sampleCount s3)[index := 0]\<rparr>)
                   else Threw TypeError s3)
                else Threw OutsideCounts s2))
      | _ \<Rightarrow> Ok s)"

subsection \<open>saveTrainingLogits\<close>

text \<open>
  \<open>logits\<close> is what \<^verbatim>\<open>captureFrameSqueezeNetLogits()\<close> returned for the current frame.
  \<^verbatim>\<open>this.current.index\<close> throws when no class is selected; a slot outside the matrix
  array is \<^verbatim>\<open>undefined\<close>, which is not \<^verbatim>\<open>null\<close>, and its \<^verbatim>\<open>as3D\<close> throws.
\<close>

definition increment_count :: "nat \<Rightarrow> 'v classifier \<Rightarrow> 'v classifier outcome" where
  "increment_count idx s =
     (if idx < length (classExampleCount s)
      then Ok (s\<lparr>classExampleCount := (classExampleCount s)[idx := classExampleCount s ! idx + 1]\<rparr>)
      else Threw OutsideCounts s)"

definition saveTrainingLogits :: "'v \<Rightarrow> 'v classifier \<Rightarrow> 'v classifier outcome" where
  "saveTrainingLogits logits s =
     (let s1 = (if trainLogitsMatrix s \<noteq> None then s\<lparr>trainLogitsMatrix := None\<rparr> else s) in
      case current s1 of
        None \<Rightarrow> Threw TypeError s1
      | Some idx \<Rightarrow>
          (case read_slot (trainClassLogitsMatrices s1) idx of
             Null \<Rightarrow>
               increment_count idx
                 (s1\<lparr>trainClassLogitsMatrices := (trainClassLogitsMatrices s1)[idx := Some [logits]]\<rparr>)
           | Undefined \<Rightarrow> Threw TypeError s1
           | Obj m \<Rightarrow>
               (case reshape_rows m (read_count (classExampleCount s1) idx) of
                  Inl e \<Rightarrow> Threw e s1
                | Inr m' \<Rightarrow>
                    increment_count idx
                      (s1\<lparr>trainClassLogitsMatrices :=
                            (trainClassLogitsMatrices s1)[idx := Some (m' @ [logits])]\<rparr>))))"

subsection \<open>getNumExamples\<close>

fun getNumExamples_loop :: "nat list \<Rightarrow> nat \<Rightarrow> nat" where
  "getNumExamples_loop [] total_so_far = total_so_far"
| "getNumExamples_loop (c # cs) total_so_far = getNumExamples_loop cs (total_so_far + c)"

definition getNumExamples :: "'v classifier \<Rightarrow> nat" where
  "getNumExamples s = getNumExamples_loop (classExampleCount s) 0"

subsection \<open>getClassFromIndex\<close>

text \<open>
  The loop from \<open>ind\<close> on, with the running \<^verbatim>\<open>prevSum\<close> (\<open>None\<close>: \<^verbatim>\<open>NaN\<close>, which a count
  read outside the array gives, and under which every comparison is false). \<open>Some c\<close>
  is a \<^verbatim>\<open>return ind\<close> inside the loop, \<open>None\<close> the loop's end, after which the function
  returns 2.
\<close>

function getClassFromIndex_loop :: "nat list \<Rightarrow> nat \<Rightarrow> nat \<Rightarrow> nat option \<Rightarrow> nat option" where
  "getClassFromIndex_loop counts index ind prevSum =
     (if ind < CLASS_COUNT then
        (case (read_count counts ind, prevSum) of
           (Some c, Some p) \<Rightarrow>
             if index < c + p then Some ind
             else getClassFromIndex_loop counts index (ind + 1) (Some (p + c))
         | _ \<Rightarrow> getClassFromIndex_loop counts index (ind + 1) None)
      else None)"
  by pat_completeness auto
termination
  by (relation "measure (\<lambda>(counts, index, ind, prevSum). CLASS_COUNT - ind)") auto

definition getClassFromIndex :: "'v classifier \<Rightarrow> nat \<Rightarrow> nat" where
  "getClassFromIndex s index =
     (case getClassFromIndex_loop (classExampleCount s) index 0 (Some 0) of
        Some ind \<Rightarrow> ind
      | None \<Rightarrow> 2)"

subsection \<open>concat and the rebuild of the cached matrix\<close>

text \<open>
  \<^verbatim>\<open>concat(ndarray1, ndarray2)\<close>: the two tests for \<^verbatim>\<open>null\<close> in their order, then the
  concatenation, whose \<^verbatim>\<open>as3D\<close> on an \<^verbatim>\<open>undefined\<close> argument throws. The reshape of an
  array to its own \<^verbatim>\<open>shape[0]\<close> rows keeps it.
\<close>

fun concat_nd :: "'v ndarray slot \<Rightarrow> 'v ndarray slot \<Rightarrow> js_error + 'v ndarray slot" where
  "concat_nd Null ndarray2 = Inr ndarray2"
| "concat_nd ndarray1 Null = Inr ndarray1"
| "concat_nd (Obj a) (Obj b) = Inr (Obj (a @ b))"
| "concat_nd ndarray1 ndarray2 = Inl TypeError"

function rebuild_loop ::
  "'v ndarray option list \<Rightarrow> nat \<Rightarrow> 'v ndarray slot \<Rightarrow> js_error + 'v ndarray slot" where
  "rebuild_loop ms index newTrainLogitsMatrix =
     (if index < CLASS_COUNT then
        (case concat_nd newTrainLogitsMatrix (read_slot ms index) of
           Inl e \<Rightarrow> Inl e
         | Inr n \<Rightarrow> rebuild_loop ms (index + 1) n)
      else Inr newTrainLogitsMatrix)"
  by pat_completeness auto
termination
  by (relation "measure (\<lambda>(ms, index, n). CLASS_COUNT - index)") auto

text \<open>\<^verbatim>\<open>this.math.clone(x)\<close> reads the array it is given.\<close>

definition clone_nd :: "'v ndarray slot \<Rightarrow> js_error + 'v ndarray" where
  "clone_nd x = (case x of Obj a \<Rightarrow> Inr a | _ \<Rightarrow> Inl TypeError)"

text \<open>
  The body of \<^verbatim>\<open>if (this.trainLogitsMatrix === null)\<close> in \<^verbatim>\<open>animate\<close>: the matrix the
  cache is set to.
\<close>

definition buildReferenceSet :: "'v classifier \<Rightarrow> js_error + 'v ndarray" where
  "buildReferenceSet s =
     (case rebuild_loop (trainClassLogitsMatrices s) 0 Null of
        Inl e \<Rightarrow> Inl e
      | Inr n \<Rightarrow> clone_nd n)"

subsection \<open>computeConfidences\<close>

fun tally :: "'v classifier \<Rightarrow> nat list \<Rightarrow> nat list \<Rightarrow> nat list" where
  "tally s [] classTopKMap = classTopKMap"
| "tally s (i # indices) classTopKMap =
     tally s indices
       (classTopKMap[getClassFromIndex s i := classTopKMap ! getClassFromIndex s i + 1])"

text \<open>
  The closure \<^verbatim>\<open>computeConfidences\<close>, run on the state \<open>s\<close> it finds when it is called,
  with the \<^verbatim>\<open>numExamples\<close> its tick read and the indices \<^verbatim>\<open>topK.indices.getValues()\<close> gives:
  \<open>getClassFromIndex\<close> reads the counts of \<open>s\<close>, not those of the tick. \<open>tally\<close> is the
  loop over the indices.
\<close>

definition kVal_of :: "nat \<Rightarrow> nat" where
  "kVal_of numExamples = min TOPK numExamples"

definition confidences_of :: "'v classifier \<Rightarrow> nat \<Rightarrow> nat list \<Rightarrow> js_quotient list" where
  "confidences_of s numExamples indices =
     (let kVal = kVal_of numExamples;
          classTopKMap = tally s indices [0, 0, 0]
      in map (\<lambda>index. Quotient (classTopKMap ! index) kVal) [0..<CLASS_COUNT])"

definition computeConfidences ::
  "'v classifier \<Rightarrow> nat \<Rightarrow> nat list \<Rightarrow> 'v classifier \<times> emitted" where
  "computeConfidences s numExamples indices =
     (s\<lparr>measureTimingCounter :=
          (measureTimingCounter s + 1) mod MEASURE_TIMING_EVERY_NUM_FRAMES\<rparr>,
      SetConfidences (confidences_of s numExamples indices))"

subsection \<open>animate\<close>

text \<open>
  One tick. A classification tick ends by handing the closure \<^verbatim>\<open>computeConfidences\<close> to
  the scheduler (\<open>Pending\<close>); the closure is not run here. \<open>frame\<close> is the feature vector
  of the current frame; \<open>knnTopK m frame k\<close> stands for the indices of
  \<^verbatim>\<open>mathCPU.topK(matMul(m, frame), k)\<close>, both the library's. While recording,
  \<^verbatim>\<open>this.current\<close> is a class object of \<^verbatim>\<open>this.classes\<close>, so its index is within
  \<open>sampleCount\<close>; the timer and the scheduling of the next tick are left out.
\<close>

definition animate ::
  "('v ndarray \<Rightarrow> 'v \<Rightarrow> nat \<Rightarrow> nat list) \<Rightarrow> 'v \<Rightarrow> 'v classifier \<Rightarrow>
     'v classifier outcome \<times> emitted" where
  "animate knnTopK frame s =
     (if isDown s then
        (case current s of
           None \<Rightarrow> (Threw TypeError s, NoCallback)
         | Some idx \<Rightarrow>
             (case saveTrainingLogits frame s of
                Threw e s' \<Rightarrow> (Threw e s', NoCallback)
              | Ok s' \<Rightarrow>
                  (let n = (case read_count (sampleCount s') idx of Some c \<Rightarrow> c | None \<Rightarrow> 0) + 1
                   in (Ok (s'\<lparr>sampleCount := (sampleCount s')[idx := n]\<rparr>), SampleCallback n))))
      else if getNumExamples s > 0 then
        (let numExamples = getNumExamples s in
         case (case trainLogitsMatrix s of
                 Some t \<Rightarrow> Inr (s, t)
               | None \<Rightarrow>
                   (case buildReferenceSet s of
                      Inl e \<Rightarrow> Inl e
                    | Inr t \<Rightarrow> Inr (s\<lparr>trainLogitsMatrix := Some t\<rparr>, t))) of
           Inl e \<Rightarrow> (Threw e s, NoCallback)
         | Inr (s1, t) \<Rightarrow>
             (case reshape_rows t (Some numExamples) of
                Inl e \<Rightarrow> (Threw e s1, NoCallback)
              | Inr t2 \<Rightarrow>
                  (Ok s1, Pending numExamples (knnTopK t2 frame (kVal_of numExamples)))))
      else (Ok s, NoCallback))"

subsection \<open>captureFrameSqueezeNetLogits, in exact arithmetic\<close>

text \<open>
  The last lines of \<^verbatim>\<open>captureFrameSqueezeNetLogits\<close>, from \<^verbatim>\<open>inferenceResult.logits\<close> on, with
  real numbers in the place of the 32-bit floats the library computes with on the GPU:
  rounding, overflow and underflow are not modelled.
\<close>

definition squashLogitsDenominator :: real where
  "squashLogitsDenominator = 300"

definition captureFrameSqueezeNetLogits :: "real list \<Rightarrow> real list" where
  "captureFrameSqueezeNetLogits logits =
     (let squashedLogits = map (\<lambda>x. x / squashLogitsDenominator) logits;
          squared = map2 (*) squashedLogits squashedLogits;
          sqrtSum = sqrt (sum_list squared)
      in map (\<lambda>x. x / sqrtSum) squashedLogits)"

subsection \<open>The rows a state holds\<close>

text \<open>The example set of a class: the rows of its matrix, none when it has no matrix.\<close>

definition rows_of :: "'v ndarray option \<Rightarrow> 'v list" where
  "rows_of m = (case m of None \<Rightarrow> [] | Some r \<Rightarrow> r)"

definition exampleSet :: "'v classifier \<Rightarrow> nat \<Rightarrow> 'v list" where
  "exampleSet s i = rows_of (trainClassLogitsMatrices s ! i)"

text \<open>The two arrays of the constructor have \<open>CLASS_COUNT\<close> slots.\<close>

definition sized :: "'v classifier \<Rightarrow> bool" where
  "sized s =
     (length (trainClassLogitsMatrices s) = CLASS_COUNT \<and>
      length (classExampleCount s) = CLASS_COUNT)"

text \<open>
  The count of a class is the number of rows stored for it, and a stored matrix has a row.
\<close>

definition class_agrees :: "'v classifier \<Rightarrow> nat \<Rightarrow> bool" where
  "class_agrees s i =
     (case trainClassLogitsMatrices s ! i of
        None \<Rightarrow> classExampleCount s ! i = 0
      | Some m \<Rightarrow> m \<noteq> [] \<and> classExampleCount s ! i = length m)"

definition counts_agree :: "'v classifier \<Rightarrow> bool" where
  "counts_agree s = (sized s \<and> list_all (class_agrees s) [0..<CLASS_COUNT])"

text \<open>
  The invariant between count and matrix: a count is positive exactly when the class has
  a matrix.
\<close>

definition positive_iff_stored :: "'v classifier \<Rightarrow> bool" where
  "positive_iff_stored s =
     list_all (\<lambda>i. (0 < classExampleCount s ! i) = (trainClassLogitsMatrices s ! i \<noteq> None))
       [0..<CLASS_COUNT]"

text \<open>The first row of class \<open>c\<close> in the concatenation: the counts of the classes before it.\<close>

definition range_start :: "'v classifier \<Rightarrow> nat \<Rightarrow> nat" where
  "range_start s c = sum_list (take c (classExampleCount s))"

definition in_range_of :: "'v classifier \<Rightarrow> nat \<Rightarrow> nat \<Rightarrow> bool" where
  "in_range_of s c i = (range_start s c \<le> i \<and> i < range_start s c + classExampleCount s ! c)"

definition state_of :: "'s outcome \<Rightarrow> 's" where
  "state_of r = (case r of Ok s \<Rightarrow> s | Threw e s \<Rightarrow> s)"

text \<open>
  What \<^verbatim>\<open>as3D(this.classExampleCount[idx], INPUT_SIZE, 1)\<close> in \<open>saveTrainingLogits\<close> asks
  of the selected class: its matrix, when it has one, holds as many rows as its count says.
\<close>

definition rows_match :: "'v classifier \<Rightarrow> nat \<Rightarrow> bool" where
  "rows_match s idx =
     (case trainClassLogitsMatrices s ! idx of
        None \<Rightarrow> True
      | Some m \<Rightarrow> classExampleCount s ! idx = length m)"

text \<open>A cached matrix is the concatenation of the class matrices as they are now.\<close>

definition cache_agrees :: "'v classifier \<Rightarrow> bool" where
  "cache_agrees s =
     (case trainLogitsMatrix s of
        None \<Rightarrow> True
      | Some t \<Rightarrow> t = concat (map (exampleSet s) [0..<CLASS_COUNT]))"

subsection \<open>States to evaluate on\<close>

text \<open>
  The feature vectors are named by numbers. \<open>one_recorded\<close>: the button of class 0 is
  held and one tick has recorded a row. \<open>two_one_none\<close>: two rows recorded for class 0
  and one for class 1, no button held, the cache not yet built. \<open>classified\<close>: the same
  after one classification tick, which built the cache, and its completion.
  \<open>recording_class_1\<close>: the button of class 1 pressed after that. \<open>half_cleared\<close>: what
  \<^verbatim>\<open>deleteClassData(0)\<close> leaves of \<open>one_recorded\<close>. \<open>recorded_again\<close>: \<open>half_cleared\<close> after
  the next recording tick.
\<close>

definition one_recorded :: "nat classifier" where
  "one_recorded =
     \<lparr> isDown = True, current = Some 0, sampleCount = [1, 0, 0],
       trainLogitsMatrix = None,
       trainClassLogitsMatrices = [Some [10], None, None],
       classExampleCount = [1, 0, 0], measureTimingCounter = 0 \<rparr>"

definition two_one_none :: "nat classifier" where
  "two_one_none =
     \<lparr> isDown = False, current = None, sampleCount = [2, 1, 0],
       trainLogitsMatrix = None,
       trainClassLogitsMatrices = [Some [10, 11], Some [20], None],
       classExampleCount = [2, 1, 0], measureTimingCounter = 0 \<rparr>"

definition classified :: "nat classifier" where
  "classified = two_one_none\<lparr>trainLogitsMatrix := Some [10, 11, 20], measureTimingCounter := 1\<rparr>"

definition recording_class_1 :: "nat classifier" where
  "recording_class_1 = classified\<lparr>current := Some 1, isDown := True\<rparr>"

definition half_cleared :: "nat classifier" where
  "half_cleared = one_recorded\<lparr>trainClassLogitsMatrices := [None, None, None]\<rparr>"

definition recorded_again :: "nat classifier" where
  "recorded_again =
     \<lparr> isDown = True, current = Some 0, sampleCount = [2, 0, 0],
       trainLogitsMatrix = None,
       trainClassLogitsMatrices = [Some [11], None, None],
       classExampleCount = [2, 0, 0], measureTimingCounter = 0 \<rparr>"

text \<open>
  \<open>class_0_cleared\<close>: \<open>classified\<close> after \<^verbatim>\<open>deleteClassData(0)\<close>.
  \<open>class_1_half_cleared\<close>: what \<^verbatim>\<open>deleteClassData(1)\<close>, called right after, leaves behind.
\<close>

definition class_0_cleared :: "nat classifier" where
  "class_0_cleared =
     \<lparr> isDown = False, current = None, sampleCount = [0, 1, 0],
       trainLogitsMatrix = None,
       trainClassLogitsMatrices = [None, Some [20], None],
       classExampleCount = [0, 1, 0], measureTimingCounter = 1 \<rparr>"

definition class_1_half_cleared :: "nat classifier" where
  "class_1_half_cleared = class_0_cleared\<lparr>trainClassLogitsMatrices := [None, None, None]\<rparr>"

text \<open>A stand-in for the library's top-k: the first \<open>k\<close> rows.\<close>

definition first_k :: "nat ndarray \<Rightarrow> nat \<Rightarrow> nat \<Rightarrow> nat list" where
  "first_k t frame k = [0..<k]"

section \<open>Properties\<close>

declare getClassFromIndex_loop.simps [simp del]
declare rebuild_loop.simps [simp del]
declare ctor_loop.simps [simp del]

subsection \<open>Counting\<close>

lemma getNumExamples_loop_sum: "getNumExamples_loop cs t = t + sum_list cs"
  by (induction cs arbitrary: t) auto

lemma getNumExamples_sum: "getNumExamples s = sum_list (classExampleCount s)"
  by (simp add: getNumExamples_def getNumExamples_loop_sum)

lemma take_sum_Suc:
  "c < length cs \<Longrightarrow> sum_list (take (Suc c) cs) = sum_list (take c cs) + cs ! c"
  by (simp add: take_Suc_conv_app_nth)

lemma take_sum_mono:
  assumes "a \<le> b"
  shows "sum_list (take a cs) \<le> sum_list (take b (cs :: nat list))"
proof -
  from assms have "take b cs = take a cs @ take (b - a) (drop a cs)"
    by (metis le_add_diff_inverse take_add)
  then show ?thesis by simp
qed

subsection \<open>The ranges of the classes do not overlap\<close>

lemma range_end_le_later_start:
  assumes "c < c'" and "c < length (classExampleCount s)"
  shows "range_start s c + classExampleCount s ! c \<le> range_start s c'"
proof -
  have "range_start s c + classExampleCount s ! c = sum_list (take (Suc c) (classExampleCount s))"
    using assms(2) by (simp add: range_start_def take_sum_Suc)
  also have "\<dots> \<le> sum_list (take c' (classExampleCount s))"
    using assms(1) by (intro take_sum_mono) simp
  finally show ?thesis by (simp add: range_start_def)
qed

lemma in_range_of_unique:
  assumes "in_range_of s c i" and "in_range_of s c' i"
    and "c < length (classExampleCount s)" and "c' < length (classExampleCount s)"
  shows "c = c'"
proof (rule ccontr)
  assume "c \<noteq> c'"
  then consider "c < c'" | "c' < c" by linarith
  then show False
  proof cases
    case 1
    from range_end_le_later_start[OF 1 assms(3)] assms(1,2) show False
      by (simp add: in_range_of_def)
  next
    case 2
    from range_end_le_later_start[OF 2 assms(4)] assms(1,2) show False
      by (simp add: in_range_of_def)
  qed
qed

subsection \<open>getClassFromIndex\<close>

text \<open>
  Entered at \<open>ind\<close> with the counts before \<open>ind\<close> as \<^verbatim>\<open>prevSum\<close>, the loop returns from
  inside for an index below the total, with the class whose range holds the index.
\<close>

lemma getClassFromIndex_loop_finds:
  "ind \<le> CLASS_COUNT \<Longrightarrow> length counts = CLASS_COUNT \<Longrightarrow>
   sum_list (take ind counts) \<le> index \<Longrightarrow> index < sum_list counts \<Longrightarrow>
   \<exists>c. ind \<le> c \<and> c < CLASS_COUNT \<and>
       getClassFromIndex_loop counts index ind (Some (sum_list (take ind counts))) = Some c \<and>
       sum_list (take c counts) \<le> index \<and> index < sum_list (take c counts) + counts ! c"
proof (induction "CLASS_COUNT - ind" arbitrary: ind)
  case 0
  then show ?case by simp
next
  case (Suc k)
  then have lt: "ind < CLASS_COUNT" by simp
  show ?case
  proof (cases "index < counts ! ind + sum_list (take ind counts)")
    case True
    with lt Suc.prems show ?thesis
      by (subst getClassFromIndex_loop.simps) (auto simp: read_count_def intro!: exI[of _ ind])
  next
    case False
    have step: "getClassFromIndex_loop counts index ind (Some (sum_list (take ind counts)))
        = getClassFromIndex_loop counts index (Suc ind) (Some (sum_list (take (Suc ind) counts)))"
      using lt False Suc.prems
      by (subst getClassFromIndex_loop.simps) (simp add: read_count_def take_sum_Suc)
    have "\<exists>c. Suc ind \<le> c \<and> c < CLASS_COUNT \<and>
       getClassFromIndex_loop counts index (Suc ind) (Some (sum_list (take (Suc ind) counts))) = Some c \<and>
       sum_list (take c counts) \<le> index \<and> index < sum_list (take c counts) + counts ! c"
      using Suc.hyps(1)[of "Suc ind"] Suc.hyps(2) lt False Suc.prems
      by (simp add: take_sum_Suc)
    with step show ?thesis by (metis Suc_leD)
  qed
qed

lemma getClassFromIndex_in_range:
  assumes "length (classExampleCount s) = CLASS_COUNT" and "i < getNumExamples s"
  shows "\<exists>c. c < CLASS_COUNT \<and>
           getClassFromIndex_loop (classExampleCount s) i 0 (Some 0) = Some c \<and>
           getClassFromIndex s i = c \<and> in_range_of s c i"
proof -
  from getClassFromIndex_loop_finds[of 0 "classExampleCount s" i] assms
  obtain c where c: "c < CLASS_COUNT"
      "getClassFromIndex_loop (classExampleCount s) i 0 (Some 0) = Some c"
      "sum_list (take c (classExampleCount s)) \<le> i"
      "i < sum_list (take c (classExampleCount s)) + classExampleCount s ! c"
    by (auto simp: getNumExamples_sum)
  then show ?thesis
    by (auto simp: getClassFromIndex_def in_range_of_def range_start_def)
qed

text \<open>
  C1. For a state whose count array has its \<open>CLASS_COUNT\<close> slots and a row index \<open>i\<close>
  below the total example count, \<open>getClassFromIndex\<close> returns from inside its loop (not
  through the final \<^verbatim>\<open>return 2\<close>), and the class it returns is the one class whose
  range of rows, from the sum of the counts before it up to that sum plus its own count,
  holds \<open>i\<close>.
\<close>

theorem getClassFromIndex_owner:
  assumes "length (classExampleCount s) = CLASS_COUNT" and "i < getNumExamples s"
  shows "\<exists>c. c < CLASS_COUNT \<and>
           getClassFromIndex_loop (classExampleCount s) i 0 (Some 0) = Some c \<and>
           getClassFromIndex s i = c \<and>
           range_start s c \<le> i \<and> i < range_start s c + classExampleCount s ! c \<and>
           (\<forall>c'. c' < CLASS_COUNT \<and> in_range_of s c' i \<longrightarrow> c' = c)"
proof -
  from getClassFromIndex_in_range[OF assms]
  obtain c where c: "c < CLASS_COUNT"
      "getClassFromIndex_loop (classExampleCount s) i 0 (Some 0) = Some c"
      "getClassFromIndex s i = c" "in_range_of s c i"
    by blast
  have "c' = c" if "c' < CLASS_COUNT" "in_range_of s c' i" for c'
    using in_range_of_unique[OF that(2) c(4)] that(1) c(1) assms(1) by simp
  with c show ?thesis
    unfolding in_range_of_def by blast
qed

theorem getClassFromIndex_owner_witness:
  "length (classExampleCount two_one_none) = CLASS_COUNT \<and> 2 < getNumExamples two_one_none \<and>
   getClassFromIndex two_one_none 2 = 1 \<and>
   (\<exists>c. c < CLASS_COUNT \<and>
        getClassFromIndex_loop (classExampleCount two_one_none) 2 0 (Some 0) = Some c \<and>
        getClassFromIndex two_one_none 2 = c \<and>
        range_start two_one_none c \<le> 2 \<and>
        2 < range_start two_one_none c + classExampleCount two_one_none ! c \<and>
        (\<forall>c'. c' < CLASS_COUNT \<and> in_range_of two_one_none c' 2 \<longrightarrow> c' = c))"
proof -
  have h1: "length (classExampleCount two_one_none) = CLASS_COUNT"
    by (simp add: two_one_none_def CLASS_COUNT_def)
  have h2: "2 < getNumExamples two_one_none"
    by (simp add: two_one_none_def getNumExamples_def)
  have v: "getClassFromIndex two_one_none 2 = 1"
    by (simp add: getClassFromIndex_def two_one_none_def getClassFromIndex_loop.simps
        CLASS_COUNT_def read_count_def)
  from getClassFromIndex_owner[OF h1 h2] h1 h2 v show ?thesis
    by blast
qed


subsection \<open>Three slots\<close>

lemma upt_three: "[0..<3] = [0, 1, 2]"
  by (simp add: upt_rec)

lemma upt_CLASS_COUNT: "[0..<CLASS_COUNT] = [0, 1, 2]"
  by (simp add: CLASS_COUNT_def upt_three)

lemma length_three: "length xs = CLASS_COUNT \<Longrightarrow> \<exists>a b c. xs = [a, b, c]"
  by (cases xs; cases "tl xs"; cases "tl (tl xs)") (auto simp: CLASS_COUNT_def)

lemma rebuild_loop_three:
  "rebuild_loop [a, b, c] 0 Null =
     Inr (if a = None \<and> b = None \<and> c = None then Null
          else Obj (rows_of a @ rows_of b @ rows_of c))"
  by (cases a; cases b; cases c)
     (simp_all add: rebuild_loop.simps CLASS_COUNT_def read_slot_def rows_of_def)

lemma buildReferenceSet_stored:
  assumes "length (trainClassLogitsMatrices s) = CLASS_COUNT"
    and "\<exists>i<CLASS_COUNT. trainClassLogitsMatrices s ! i \<noteq> None"
  shows "buildReferenceSet s = Inr (concat (map (exampleSet s) [0..<CLASS_COUNT]))"
proof -
  from length_three[OF assms(1)] obtain a b c where ms: "trainClassLogitsMatrices s = [a, b, c]"
    by blast
  from assms(2) ms have "\<not> (a = None \<and> b = None \<and> c = None)"
    by (auto simp: CLASS_COUNT_def less_Suc_eq numeral_3_eq_3)
  then show ?thesis
    by (simp add: buildReferenceSet_def ms rebuild_loop_three clone_nd_def upt_CLASS_COUNT
        exampleSet_def)
qed

lemma rows_total:
  assumes "counts_agree s"
  shows "length (concat (map (exampleSet s) [0..<CLASS_COUNT])) = getNumExamples s"
proof -
  from assms have sz: "sized s" and ag: "list_all (class_agrees s) [0..<CLASS_COUNT]"
    by (simp_all add: counts_agree_def)
  from sz length_three obtain a b c x y z
    where ms: "trainClassLogitsMatrices s = [a, b, c]" and cs: "classExampleCount s = [x, y, z]"
    unfolding sized_def by metis
  from ag show ?thesis
    by (auto simp: upt_CLASS_COUNT class_agrees_def ms cs exampleSet_def rows_of_def
        getNumExamples_sum split: option.splits)
qed

lemma some_stored:
  assumes "counts_agree s" and "0 < getNumExamples s"
  shows "\<exists>i<CLASS_COUNT. trainClassLogitsMatrices s ! i \<noteq> None"
proof -
  from assms have sz: "sized s" and ag: "list_all (class_agrees s) [0..<CLASS_COUNT]"
    by (simp_all add: counts_agree_def)
  from sz length_three obtain a b c x y z
    where ms: "trainClassLogitsMatrices s = [a, b, c]" and cs: "classExampleCount s = [x, y, z]"
    unfolding sized_def by metis
  from ag assms(2) have "a \<noteq> None \<or> b \<noteq> None \<or> c \<noteq> None"
    by (auto simp: upt_CLASS_COUNT class_agrees_def ms cs getNumExamples_sum split: option.splits)
  then show ?thesis
    by (auto simp: ms CLASS_COUNT_def intro: exI[of _ 0] exI[of _ 1] exI[of _ 2])
qed

text \<open>
  Where counts and matrices agree, the rows of the concatenation in a class's range are
  the rows of that class, in their order.
\<close>

lemma reference_row_owner:
  assumes "counts_agree s" and "c < CLASS_COUNT" and "in_range_of s c i"
  shows "concat (map (exampleSet s) [0..<CLASS_COUNT]) ! i = exampleSet s c ! (i - range_start s c)"
proof -
  from assms(1) have sz: "sized s" and ag: "list_all (class_agrees s) [0..<CLASS_COUNT]"
    by (simp_all add: counts_agree_def)
  from sz length_three obtain a b d x y z
    where ms: "trainClassLogitsMatrices s = [a, b, d]" and cs: "classExampleCount s = [x, y, z]"
    unfolding sized_def by metis
  from ag have len: "length (rows_of a) = x" "length (rows_of b) = y" "length (rows_of d) = z"
    by (auto simp: upt_CLASS_COUNT class_agrees_def ms cs rows_of_def split: option.splits)
  from assms(2) consider "c = 0" | "c = 1" | "c = 2"
    unfolding CLASS_COUNT_def by linarith
  then show ?thesis
  proof cases
    case 1
    with assms(3) len show ?thesis
      by (simp add: upt_CLASS_COUNT exampleSet_def ms cs in_range_of_def range_start_def nth_append)
  next
    case 2
    with assms(3) len show ?thesis
      by (auto simp: upt_CLASS_COUNT exampleSet_def ms cs in_range_of_def range_start_def nth_append)
  next
    case 3
    with assms(3) len show ?thesis
      by (auto simp: upt_CLASS_COUNT exampleSet_def ms cs in_range_of_def range_start_def nth_append
          numeral_2_eq_2)
  qed
qed

subsection \<open>The states to evaluate on are reached\<close>

lemma new_classifier_eq:
  "new_classifier n =
     \<lparr> isDown = False, current = None, sampleCount = replicate n 0,
       trainLogitsMatrix = None, trainClassLogitsMatrices = [None, None, None],
       classExampleCount = [0, 0, 0], measureTimingCounter = 0 \<rparr>"
  by (simp add: new_classifier_def ctor_loop.simps CLASS_COUNT_def)

lemma replicate_three: "replicate 3 (0::nat) = [0, 0, 0]"
  by (simp add: numeral_3_eq_3)

lemmas run_defs =
  animate_def saveTrainingLogits_def deleteClassData_def buttonDown_def buttonUp_def
  increment_count_def read_slot_def read_count_def reshape_rows_def state_of_def
  getNumExamples_def

lemma one_recorded_reached:
  "fst (animate knnTopK 10 (state_of (buttonDown 0 (new_classifier 3)))) = Ok one_recorded"
  by (simp add: new_classifier_eq replicate_three run_defs one_recorded_def)

lemma two_one_none_reached:
  "buttonUp (state_of (fst (animate knnTopK 20 (state_of (buttonDown 1 (buttonUp
     (state_of (fst (animate knnTopK 11 one_recorded))))))))) = two_one_none"
  by (simp add: run_defs one_recorded_def two_one_none_def)







subsection \<open>saveTrainingLogits\<close>

lemma saveTrainingLogits_selected:
  assumes "current s = Some idx" and "idx < CLASS_COUNT" and "sized s" and "rows_match s idx"
  shows "saveTrainingLogits v s =
           Ok (s\<lparr>trainLogitsMatrix := None,
                 trainClassLogitsMatrices :=
                   (trainClassLogitsMatrices s)[idx := Some (exampleSet s idx @ [v])],
                 classExampleCount :=
                   (classExampleCount s)[idx := classExampleCount s ! idx + 1]\<rparr>)"
  using assms
  by (cases "trainLogitsMatrix s"; cases "trainClassLogitsMatrices s ! idx")
     (simp_all add: saveTrainingLogits_def sized_def rows_match_def read_slot_def read_count_def
        reshape_rows_def increment_count_def exampleSet_def rows_of_def)

text \<open>
  With a class selected (one of the \<open>CLASS_COUNT\<close> classes, in a state whose arrays have
  their \<open>CLASS_COUNT\<close> slots) whose matrix, if it has one, holds as many rows as its count
  says, \<open>saveTrainingLogits\<close> returns normally; the frame's feature vector is appended to
  the rows of that class, the count of that class grows by exactly one, the matrix, the
  rows and the count of every other class are unchanged, and the cached training matrix
  is \<^verbatim>\<open>null\<close> afterwards.
\<close>

lemma saveTrainingLogits_appends_where_rows_match:
  assumes "current s = Some idx" and "idx < CLASS_COUNT" and "sized s" and "rows_match s idx"
  shows "\<exists>s'. saveTrainingLogits v s = Ok s' \<and>
           exampleSet s' idx = exampleSet s idx @ [v] \<and>
           classExampleCount s' ! idx = classExampleCount s ! idx + 1 \<and>
           (\<forall>j. j \<noteq> idx \<longrightarrow>
                trainClassLogitsMatrices s' ! j = trainClassLogitsMatrices s ! j \<and>
                exampleSet s' j = exampleSet s j \<and>
                classExampleCount s' ! j = classExampleCount s ! j) \<and>
           trainLogitsMatrix s' = None \<and>
           length (trainClassLogitsMatrices s') = length (trainClassLogitsMatrices s) \<and>
           length (classExampleCount s') = length (classExampleCount s)"
  using assms(2,3)
  by (simp add: saveTrainingLogits_selected[OF assms] exampleSet_def sized_def rows_of_def)

text \<open>
  C3. The claim fails on the code. \<open>deleteClassData\<close> on class 0, called while the cache
  is \<^verbatim>\<open>null\<close>, throws after it has set the class matrix to \<^verbatim>\<open>null\<close> and before it resets
  the count (the slip of C4). The next recording tick for class 0 starts a new matrix
  of one row and counts 2. From then on \<open>saveTrainingLogits\<close> for class 0 throws at
  \<^verbatim>\<open>as3D(this.classExampleCount[...], INPUT_SIZE, 1)\<close>, a reshape of one row to two: no
  vector is appended and no count grows.
\<close>

theorem saveTrainingLogits_after_failed_clear:
  "deleteClassData 0 one_recorded = Threw TypeError half_cleared \<and>
   animate first_k 11 half_cleared = (Ok recorded_again, SampleCallback 2) \<and>
   current recorded_again = Some 0 \<and>
   exampleSet recorded_again 0 = [11] \<and>
   classExampleCount recorded_again ! 0 = 2 \<and>
   saveTrainingLogits 12 recorded_again = Threw ShapeError recorded_again \<and>
   animate first_k 12 recorded_again = (Threw ShapeError recorded_again, NoCallback)"
proof -
  have a: "deleteClassData 0 one_recorded = Threw TypeError half_cleared"
    by (simp add: deleteClassData_def read_slot_def half_cleared_def one_recorded_def)
  have b: "animate first_k 11 half_cleared = (Ok recorded_again, SampleCallback 2)"
    by (simp add: run_defs half_cleared_def one_recorded_def recorded_again_def)
  have c: "current recorded_again = Some 0" "exampleSet recorded_again 0 = [11]"
      "classExampleCount recorded_again ! 0 = 2"
    by (simp_all add: recorded_again_def exampleSet_def rows_of_def)
  have d: "saveTrainingLogits 12 recorded_again = Threw ShapeError recorded_again"
    by (simp add: saveTrainingLogits_def read_slot_def read_count_def reshape_rows_def
        recorded_again_def)
  have e: "animate first_k 12 recorded_again = (Threw ShapeError recorded_again, NoCallback)"
    by (simp add: animate_def d c(1)) (simp add: recorded_again_def)
  from a b c d e show ?thesis by (intro conjI)
qed

text \<open>
  C9. With no class selected, \<open>saveTrainingLogits\<close> throws (the read of
  \<^verbatim>\<open>this.current.index\<close>), whatever the state; the class matrices and the counts are as
  before. A tick with the button flag set and no class selected throws as well, with the
  state unchanged.
\<close>

theorem saveTrainingLogits_no_class:
  assumes "current s = None"
  shows "\<exists>s'. saveTrainingLogits v s = Threw TypeError s' \<and>
           trainClassLogitsMatrices s' = trainClassLogitsMatrices s \<and>
           classExampleCount s' = classExampleCount s \<and>
           (isDown s \<longrightarrow> animate knnTopK v s = (Threw TypeError s, NoCallback))"
  using assms by (simp add: saveTrainingLogits_def animate_def)

theorem saveTrainingLogits_no_class_witness:
  "current classified = None \<and>
   saveTrainingLogits 21 classified = Threw TypeError (classified\<lparr>trainLogitsMatrix := None\<rparr>) \<and>
   (\<exists>s'. saveTrainingLogits 21 classified = Threw TypeError s' \<and>
      trainClassLogitsMatrices s' = trainClassLogitsMatrices classified \<and>
      classExampleCount s' = classExampleCount classified \<and>
      (isDown classified \<longrightarrow> animate first_k 21 classified = (Threw TypeError classified, NoCallback)))"
proof -
  have h: "current classified = None"
    by (simp add: classified_def two_one_none_def)
  have e: "saveTrainingLogits 21 classified = Threw TypeError (classified\<lparr>trainLogitsMatrix := None\<rparr>)"
    by (simp add: saveTrainingLogits_def classified_def two_one_none_def)
  from saveTrainingLogits_no_class[OF h, of 21 first_k] h e show ?thesis
    by (intro conjI) assumption+
qed

subsection \<open>deleteClassData on a class without a matrix\<close>

text \<open>
  C5. For a class that has no stored matrix (which is how the code holds an empty example
  set; an index outside the array reads \<^verbatim>\<open>undefined\<close> and counts as well), and so for a
  class whose count is zero in a state where counts and matrices agree, \<open>deleteClassData\<close>
  returns normally and the state is the one before: counts, class matrices and the cached
  matrix are unchanged.
\<close>

theorem deleteClassData_empty:
  assumes "(\<forall>m. read_slot (trainClassLogitsMatrices s) index \<noteq> Obj m) \<or>
           (counts_agree s \<and> index < CLASS_COUNT \<and> classExampleCount s ! index = 0)"
  shows "deleteClassData index s = Ok s"
proof -
  have "\<forall>m. read_slot (trainClassLogitsMatrices s) index \<noteq> Obj m"
    using assms
    by (auto simp: counts_agree_def sized_def list_all_iff class_agrees_def read_slot_def
        split: option.splits)
  then show ?thesis
    by (cases "read_slot (trainClassLogitsMatrices s) index") (simp_all add: deleteClassData_def)
qed

theorem deleteClassData_empty_witness:
  "read_slot (trainClassLogitsMatrices two_one_none) 2 = Null \<and>
   classExampleCount two_one_none ! 2 = 0 \<and>
   deleteClassData 2 two_one_none = Ok two_one_none"
proof -
  have n: "read_slot (trainClassLogitsMatrices two_one_none) 2 = Null"
    by (simp add: read_slot_def two_one_none_def)
  then have h: "\<forall>m. read_slot (trainClassLogitsMatrices two_one_none) 2 \<noteq> Obj m"
    by simp
  have z: "classExampleCount two_one_none ! 2 = 0"
    by (simp add: two_one_none_def)
  from deleteClassData_empty[OF disjI1, OF h] n z show ?thesis
    by (intro conjI) assumption+
qed

subsection \<open>A tick without examples\<close>

text \<open>
  C6. When the total example count is zero, a tick hands no confidence vector to the
  confidence callback and hands no completion to the scheduler either, so none is
  delivered later on its account; with no button held the tick returns normally, calls
  no callback and leaves the state as it was.
\<close>

theorem animate_no_examples:
  assumes "getNumExamples s = 0"
  shows "(\<forall>conf. snd (animate knnTopK frame s) \<noteq> SetConfidences conf) \<and>
         (\<forall>n indices. snd (animate knnTopK frame s) \<noteq> Pending n indices) \<and>
         (\<not> isDown s \<longrightarrow> animate knnTopK frame s = (Ok s, NoCallback))"
  using assms
  by (auto simp: animate_def split: option.splits outcome.splits)

theorem animate_no_examples_witness:
  "getNumExamples (new_classifier 3 :: nat classifier) = 0 \<and>
   animate first_k 12 (new_classifier 3) = (Ok (new_classifier 3), NoCallback) \<and>
   (\<forall>conf. snd (animate first_k 12 (new_classifier 3)) \<noteq> SetConfidences conf) \<and>
   (\<forall>n indices. snd (animate first_k 12 (new_classifier 3)) \<noteq> Pending n indices)"
proof -
  have h: "getNumExamples (new_classifier 3 :: nat classifier) = 0"
    by (simp add: new_classifier_eq getNumExamples_def)
  have d: "\<not> isDown (new_classifier 3 :: nat classifier)"
    by (simp add: new_classifier_eq)
  from animate_no_examples[OF h, of first_k 12] h d show ?thesis
    by blast
qed

subsection \<open>The rebuild of the cached matrix\<close>

text \<open>
  In a state where counts and matrices agree and some example is stored, the rebuild of
  \<open>animate\<close> returns the rows of class 0, then those of class 1, then those of class 2; a
  class whose count is zero has no rows and adds none, and the rebuild does not fail; the
  result has as many rows as \<open>getNumExamples\<close> counts.
\<close>

lemma buildReferenceSet_concat_where_counts_agree:
  assumes "counts_agree s" and "0 < getNumExamples s"
  shows "buildReferenceSet s = Inr (concat (map (exampleSet s) [0..<CLASS_COUNT])) \<and>
         concat (map (exampleSet s) [0..<CLASS_COUNT]) = exampleSet s 0 @ exampleSet s 1 @ exampleSet s 2 \<and>
         (\<forall>i<CLASS_COUNT. classExampleCount s ! i = 0 \<longrightarrow> exampleSet s i = []) \<and>
         length (concat (map (exampleSet s) [0..<CLASS_COUNT])) = getNumExamples s"
proof -
  from assms(1) have sz: "length (trainClassLogitsMatrices s) = CLASS_COUNT"
    by (simp add: counts_agree_def sized_def)
  have skip: "exampleSet s i = []" if "i < CLASS_COUNT" "classExampleCount s ! i = 0" for i
  proof -
    from assms(1) that(1) have "class_agrees s i"
      by (simp add: counts_agree_def list_all_iff)
    with that(2) show ?thesis
      by (auto simp: class_agrees_def exampleSet_def rows_of_def split: option.splits)
  qed
  from buildReferenceSet_stored[OF sz some_stored[OF assms]] rows_total[OF assms(1)] skip
  show ?thesis
    by (simp add: upt_CLASS_COUNT)
qed

text \<open>
  C8. The claim fails on the code, by the slip of C4. After \<open>deleteClassData\<close> has thrown
  on class 0 and one more row was recorded for it, the counts sum to 2 while the rebuild
  yields the one stored row, and the tick throws at \<^verbatim>\<open>as2D(numExamples, 1000)\<close>. After two
  clears in a row the counts sum to 1 while no matrix is stored: the rebuild ends with
  \<^verbatim>\<open>null\<close> and \<^verbatim>\<open>math.clone\<close> throws.
\<close>

theorem buildReferenceSet_after_failed_clear:
  "animate first_k 11 (state_of (deleteClassData 0 one_recorded)) = (Ok recorded_again, SampleCallback 2) \<and>
   getNumExamples (buttonUp recorded_again) = 2 \<and>
   buildReferenceSet (buttonUp recorded_again) = Inr [11] \<and>
   animate first_k 12 (buttonUp recorded_again) =
     (Threw ShapeError (buttonUp recorded_again\<lparr>trainLogitsMatrix := Some [11]\<rparr>), NoCallback) \<and>
   deleteClassData 1 (state_of (deleteClassData 0 classified)) = Threw TypeError class_1_half_cleared \<and>
   getNumExamples class_1_half_cleared = 1 \<and>
   buildReferenceSet class_1_half_cleared = Inl TypeError"
proof -
  have a: "animate first_k 11 (state_of (deleteClassData 0 one_recorded)) =
             (Ok recorded_again, SampleCallback 2)"
    by (simp add: run_defs one_recorded_def recorded_again_def)
  have b: "getNumExamples (buttonUp recorded_again) = 2"
    by (simp add: getNumExamples_def buttonUp_def recorded_again_def)
  have c: "buildReferenceSet (buttonUp recorded_again) = Inr [11]"
    by (simp add: buildReferenceSet_def buttonUp_def recorded_again_def rebuild_loop_three
        clone_nd_def rows_of_def)
  have d: "animate first_k 12 (buttonUp recorded_again) =
             (Threw ShapeError (buttonUp recorded_again\<lparr>trainLogitsMatrix := Some [11]\<rparr>), NoCallback)"
  proof -
    have "\<not> isDown (buttonUp recorded_again)" "trainLogitsMatrix (buttonUp recorded_again) = None"
      by (simp_all add: buttonUp_def recorded_again_def)
    then show ?thesis
      by (simp add: animate_def b c reshape_rows_def)
  qed
  have e: "deleteClassData 1 (state_of (deleteClassData 0 classified)) =
             Threw TypeError class_1_half_cleared"
    by (simp add: deleteClassData_def read_slot_def state_of_def classified_def two_one_none_def
        class_1_half_cleared_def class_0_cleared_def)
  have f: "getNumExamples class_1_half_cleared = 1"
    by (simp add: getNumExamples_def class_1_half_cleared_def class_0_cleared_def)
  have g: "buildReferenceSet class_1_half_cleared = Inl TypeError"
    by (simp add: buildReferenceSet_def class_1_half_cleared_def class_0_cleared_def
        rebuild_loop_three clone_nd_def)
  from a b c d e f g show ?thesis by (intro conjI)
qed

subsection \<open>The votes of a tick\<close>











lemma getClassFromIndex_cong:
  assumes "classExampleCount s' = classExampleCount s"
  shows "getClassFromIndex s' i = getClassFromIndex s i"
  unfolding getClassFromIndex_def assms ..

lemma tally_cong:
  assumes "classExampleCount s' = classExampleCount s"
  shows "tally s' indices m = tally s indices m"
  by (induction indices arbitrary: m) (simp_all add: getClassFromIndex_cong[OF assms])

lemma confidences_of_cong:
  assumes "classExampleCount s' = classExampleCount s"
  shows "confidences_of s' n indices = confidences_of s n indices"
  unfolding confidences_of_def tally_cong[OF assms] ..

lemma animate_classifies:
  assumes "\<not> isDown s" and "counts_agree s" and "cache_agrees s" and "0 < getNumExamples s"
  shows "\<exists>s'. animate knnTopK frame s =
           (Ok s', Pending (getNumExamples s)
              (knnTopK (concat (map (exampleSet s) [0..<CLASS_COUNT])) frame
                 (kVal_of (getNumExamples s)))) \<and>
           trainLogitsMatrix s' = Some (concat (map (exampleSet s) [0..<CLASS_COUNT])) \<and>
           trainClassLogitsMatrices s' = trainClassLogitsMatrices s \<and>
           classExampleCount s' = classExampleCount s"
proof -
  let ?ref = "concat (map (exampleSet s) [0..<CLASS_COUNT])"
  have len: "length ?ref = getNumExamples s"
    by (rule rows_total[OF assms(2)])
  have shape: "reshape_rows ?ref (Some (getNumExamples s)) = Inr ?ref"
    by (simp add: reshape_rows_def len)
  show ?thesis
  proof (cases "trainLogitsMatrix s")
    case None
    from assms(2) have "length (trainClassLogitsMatrices s) = CLASS_COUNT"
      by (simp add: counts_agree_def sized_def)
    then have "buildReferenceSet s = Inr ?ref"
      by (rule buildReferenceSet_stored[OF _ some_stored[OF assms(2,4)]])
    with None assms(1,4) shape show ?thesis
      by (simp add: animate_def Let_def)
  next
    case (Some t)
    with assms(3) have "t = ?ref" by (simp add: cache_agrees_def)
    with Some assms(1,4) shape show ?thesis
      by (simp add: animate_def Let_def)
  qed
qed





subsection \<open>deleteClassData on a class with a matrix\<close>

lemma deleteClassData_null_cache:
  assumes "read_slot (trainClassLogitsMatrices s) index = Obj m" and "trainLogitsMatrix s = None"
  shows "deleteClassData index s =
           Threw TypeError (s\<lparr>trainClassLogitsMatrices := (trainClassLogitsMatrices s)[index := None]\<rparr>)"
  using assms by (simp add: deleteClassData_def)

lemma deleteClassData_cached:
  assumes "read_slot (trainClassLogitsMatrices s) index = Obj m" and "trainLogitsMatrix s = Some t"
    and "index < length (classExampleCount s)" and "index < length (sampleCount s)"
  shows "deleteClassData index s =
           Ok (s\<lparr>trainClassLogitsMatrices := (trainClassLogitsMatrices s)[index := None],
                 trainLogitsMatrix := None,
                 classExampleCount := (classExampleCount s)[index := 0],
                 sampleCount := (sampleCount s)[index := 0]\<rparr>)"
  using assms by (simp add: deleteClassData_def)

text \<open>
  C4. The claim fails on the code. After one recorded example for class 0, the cached
  matrix is \<^verbatim>\<open>null\<close> (\<open>saveTrainingLogits\<close> tests for that before it disposes of the cache);
  \<open>deleteClassData\<close> on class 0 then sets the class matrix to \<^verbatim>\<open>null\<close> and throws at
  \<^verbatim>\<open>this.trainLogitsMatrix.dispose()\<close>, before the count is reset: the count of class 0 is
  still 1.
\<close>

theorem deleteClassData_after_recording:
  "fst (animate first_k 10 (state_of (buttonDown 0 (new_classifier 3)))) = Ok one_recorded \<and>
   trainClassLogitsMatrices one_recorded ! 0 = Some [10] \<and>
   classExampleCount one_recorded ! 0 = 1 \<and>
   trainLogitsMatrix one_recorded = None \<and>
   deleteClassData 0 one_recorded =
     Threw TypeError (one_recorded\<lparr>trainClassLogitsMatrices := [None, None, None]\<rparr>) \<and>
   classExampleCount (state_of (deleteClassData 0 one_recorded)) ! 0 = 1"
  by (simp add: one_recorded_reached)
     (simp add: one_recorded_def deleteClassData_def read_slot_def state_of_def)

subsection \<open>Counts and matrices from one operation to the next\<close>

lemma counts_agree_iff:
  "counts_agree s = (sized s \<and> (\<forall>i<CLASS_COUNT. class_agrees s i))"
  by (auto simp: counts_agree_def list_all_iff)

lemma positive_iff_stored_iff:
  "positive_iff_stored s =
     (\<forall>i<CLASS_COUNT. (0 < classExampleCount s ! i) = (trainClassLogitsMatrices s ! i \<noteq> None))"
  by (auto simp: positive_iff_stored_def list_all_iff)

lemma counts_agree_positive: "counts_agree s \<Longrightarrow> positive_iff_stored s"
  by (auto simp: counts_agree_iff positive_iff_stored_iff class_agrees_def split: option.splits)

lemma new_classifier_agrees: "counts_agree (new_classifier n)"
  by (simp add: counts_agree_def upt_CLASS_COUNT)
     (simp add: new_classifier_eq sized_def class_agrees_def CLASS_COUNT_def)

lemma new_classifier_cache: "cache_agrees (new_classifier n)"
  by (simp add: cache_agrees_def new_classifier_eq)

lemma saveTrainingLogits_agrees:
  assumes "counts_agree s"
  shows "counts_agree (state_of (saveTrainingLogits v s))"
proof (cases "current s")
  case None
  then have "saveTrainingLogits v s = Threw TypeError (s\<lparr>trainLogitsMatrix := None\<rparr>)"
    by (cases "trainLogitsMatrix s") (simp_all add: saveTrainingLogits_def)
  with assms show ?thesis
    by (auto simp: state_of_def counts_agree_iff sized_def class_agrees_def split: option.splits)
next
  case (Some idx)
  show ?thesis
  proof (cases "idx < CLASS_COUNT")
    case False
    with Some assms
    have "saveTrainingLogits v s = Threw TypeError (s\<lparr>trainLogitsMatrix := None\<rparr>)"
      by (cases "trainLogitsMatrix s")
         (simp_all add: saveTrainingLogits_def read_slot_def counts_agree_iff sized_def)
    with assms show ?thesis
      by (auto simp: state_of_def counts_agree_iff sized_def class_agrees_def split: option.splits)
  next
    case True
    from assms True have "class_agrees s idx" and sz: "sized s"
      by (simp_all add: counts_agree_iff)
    then have rm: "rows_match s idx"
      by (auto simp: class_agrees_def rows_match_def split: option.splits)
    from assms True sz show ?thesis
      unfolding saveTrainingLogits_selected[OF Some True sz rm]
      by (auto simp: state_of_def counts_agree_iff sized_def class_agrees_def exampleSet_def
          rows_of_def nth_list_update split: option.splits)
  qed
qed

lemma saveTrainingLogits_cache: "cache_agrees (state_of (saveTrainingLogits v s))"
  by (auto simp: saveTrainingLogits_def state_of_def cache_agrees_def increment_count_def Let_def
      split: option.splits slot.splits sum.splits)

lemma deleteClassData_agrees:
  assumes "counts_agree s" and "deleteClassData index s = Ok s'"
  shows "counts_agree s'"
proof (cases "read_slot (trainClassLogitsMatrices s) index")
  case (Obj m)
  with assms(2) obtain t where t: "trainLogitsMatrix s = Some t"
    by (cases "trainLogitsMatrix s") (simp_all add: deleteClassData_def)
  from assms(2) Obj t have "index < length (classExampleCount s)" "index < length (sampleCount s)"
    by (simp_all add: deleteClassData_def Let_def split: if_splits)
  from deleteClassData_cached[OF Obj t this] assms(2)
  have s': "trainClassLogitsMatrices s' = (trainClassLogitsMatrices s)[index := None]"
      "classExampleCount s' = (classExampleCount s)[index := 0]"
    by auto
  from assms(1) have sz: "sized s" and ag: "\<forall>i<CLASS_COUNT. class_agrees s i"
    by (simp_all add: counts_agree_iff)
  have "class_agrees s' i" if "i < CLASS_COUNT" for i
  proof (cases "i = index")
    case True
    with that sz show ?thesis
      by (simp add: class_agrees_def s' sized_def)
  next
    case False
    with that ag show ?thesis
      by (auto simp: class_agrees_def s' split: option.splits)
  qed
  with sz show ?thesis
    by (simp add: counts_agree_iff sized_def s')
qed (use assms in \<open>simp_all add: deleteClassData_def\<close>)

lemma deleteClassData_breaks:
  assumes "counts_agree s" and "index < CLASS_COUNT"
    and "trainClassLogitsMatrices s ! index \<noteq> None" and "trainLogitsMatrix s = None"
  shows "\<not> positive_iff_stored (state_of (deleteClassData index s))"
proof -
  from assms(1,2) have len: "index < length (trainClassLogitsMatrices s)"
      "index < length (classExampleCount s)" and ag: "class_agrees s index"
    by (simp_all add: counts_agree_iff sized_def)
  from assms(3) obtain m where m: "trainClassLogitsMatrices s ! index = Some m" by blast
  with len have sl: "read_slot (trainClassLogitsMatrices s) index = Obj m"
    by (simp add: read_slot_def)
  from ag m have "0 < classExampleCount s ! index"
    by (simp add: class_agrees_def)
  with len assms(2) show ?thesis
    unfolding deleteClassData_null_cache[OF sl assms(4)]
    by (auto simp: state_of_def positive_iff_stored_iff intro!: exI[of _ index])
qed

lemma counts_agree_cong:
  assumes "trainClassLogitsMatrices s' = trainClassLogitsMatrices s"
    and "classExampleCount s' = classExampleCount s"
  shows "counts_agree s' = counts_agree s"
  unfolding counts_agree_iff sized_def class_agrees_def assms ..

lemma exampleSet_cong:
  assumes "trainClassLogitsMatrices s' = trainClassLogitsMatrices s"
  shows "exampleSet s' = exampleSet s"
  by (rule ext) (simp add: exampleSet_def assms)

lemma cache_agrees_cong:
  assumes "trainClassLogitsMatrices s' = trainClassLogitsMatrices s"
    and "trainLogitsMatrix s' = trainLogitsMatrix s"
  shows "cache_agrees s' = cache_agrees s"
  unfolding cache_agrees_def assms(2) exampleSet_cong[OF assms(1)] ..

lemma deleteClassData_cache:
  assumes "cache_agrees s"
  shows "cache_agrees (state_of (deleteClassData index s))"
  using assms
  by (auto simp: deleteClassData_def state_of_def cache_agrees_def Let_def
      split: slot.splits option.splits)

lemma animate_agrees:
  assumes "counts_agree s" and "cache_agrees s"
  shows "counts_agree (state_of (fst (animate knnTopK frame s))) \<and>
         cache_agrees (state_of (fst (animate knnTopK frame s)))"
proof (cases "isDown s")
  case True
  show ?thesis
  proof (cases "current s")
    case None
    with True assms show ?thesis
      by (simp add: animate_def state_of_def)
  next
    case (Some idx)
    let ?r = "saveTrainingLogits frame s"
    have a: "counts_agree (state_of ?r)" and c: "cache_agrees (state_of ?r)"
      by (rule saveTrainingLogits_agrees[OF assms(1)], rule saveTrainingLogits_cache)
    show ?thesis
    proof (cases ?r)
      case (Ok s')
      with a c have "counts_agree s'" "cache_agrees s'"
        by (simp_all add: state_of_def)
      then have upd: "counts_agree (s'\<lparr>sampleCount := x\<rparr>) \<and> cache_agrees (s'\<lparr>sampleCount := x\<rparr>)" for x
        using counts_agree_cong[of "s'\<lparr>sampleCount := x\<rparr>" s']
          cache_agrees_cong[of "s'\<lparr>sampleCount := x\<rparr>" s'] by simp
      from True Some Ok obtain x out where "animate knnTopK frame s = (Ok (s'\<lparr>sampleCount := x\<rparr>), out)"
        by (simp add: animate_def Let_def)
      with upd[of x] show ?thesis
        by (simp add: state_of_def)
    next
      case (Threw e s')
      with a c True Some show ?thesis
        by (simp add: animate_def state_of_def)
    qed
  qed
next
  case False
  show ?thesis
  proof (cases "0 < getNumExamples s")
    case True
    from animate_classifies[OF False assms True, of knnTopK frame]
    obtain s' where r: "animate knnTopK frame s =
           (Ok s', Pending (getNumExamples s)
              (knnTopK (concat (map (exampleSet s) [0..<CLASS_COUNT])) frame
                 (kVal_of (getNumExamples s)))) \<and>
           trainLogitsMatrix s' = Some (concat (map (exampleSet s) [0..<CLASS_COUNT])) \<and>
           trainClassLogitsMatrices s' = trainClassLogitsMatrices s \<and>
           classExampleCount s' = classExampleCount s" ..
    then have run: "fst (animate knnTopK frame s) = Ok s'"
      and s': "trainLogitsMatrix s' = Some (concat (map (exampleSet s) [0..<CLASS_COUNT]))"
        "trainClassLogitsMatrices s' = trainClassLogitsMatrices s"
        "classExampleCount s' = classExampleCount s"
      by simp_all
    from s' assms(1) have "counts_agree s'"
      by (simp add: counts_agree_cong[of s' s])
    moreover from s' have "cache_agrees s'"
      by (simp add: cache_agrees_def exampleSet_cong[of s' s])
    ultimately show ?thesis
      by (simp add: run state_of_def)
  next
    case False
    with \<open>\<not> isDown s\<close> assms show ?thesis
      by (simp add: animate_def state_of_def)
  qed
qed

lemma computeConfidences_agrees:
  "counts_agree (fst (computeConfidences s n indices)) = counts_agree s"
  "cache_agrees (fst (computeConfidences s n indices)) = cache_agrees s"
  by (simp_all add: computeConfidences_def
      counts_agree_cong[of "s\<lparr>measureTimingCounter := x\<rparr>" s for x]
      cache_agrees_cong[of "s\<lparr>measureTimingCounter := x\<rparr>" s for x])

text \<open>
  C10. The claim fails on the code, by the same missing test for \<^verbatim>\<open>null\<close> in
  \<open>deleteClassData\<close>. From the state after a classification, \<open>deleteClassData\<close> on class 0
  returns and sets the cache to \<^verbatim>\<open>null\<close>; \<open>deleteClassData\<close> on class 1, called next,
  throws with the matrix of class 1 gone and its count still 1, so a positive count no
  longer means a stored matrix. The total is then positive while the rebuild of the
  next tick finds no matrix and throws. (The constructor, \<open>saveTrainingLogits\<close>, a tick,
  its completion and every \<open>deleteClassData\<close> that returns keep counts and matrices in
  agreement: the lemmas above.)
\<close>

theorem invariant_broken_by_deleteClassData:
  "positive_iff_stored classified \<and>
   deleteClassData 0 classified = Ok class_0_cleared \<and>
   positive_iff_stored class_0_cleared \<and>
   deleteClassData 1 class_0_cleared = Threw TypeError class_1_half_cleared \<and>
   \<not> positive_iff_stored class_1_half_cleared \<and>
   getNumExamples class_1_half_cleared = 1 \<and>
   buildReferenceSet class_1_half_cleared = Inl TypeError \<and>
   animate first_k 12 class_1_half_cleared = (Threw TypeError class_1_half_cleared, NoCallback)"
proof -
  have a: "positive_iff_stored classified"
    by (simp add: positive_iff_stored_def upt_CLASS_COUNT)
       (simp add: classified_def two_one_none_def)
  have b: "deleteClassData 0 classified = Ok class_0_cleared"
    by (simp add: deleteClassData_def read_slot_def classified_def two_one_none_def
        class_0_cleared_def)
  have c: "positive_iff_stored class_0_cleared"
    by (simp add: positive_iff_stored_def upt_CLASS_COUNT)
       (simp add: class_0_cleared_def)
  have d: "deleteClassData 1 class_0_cleared = Threw TypeError class_1_half_cleared"
    by (simp add: deleteClassData_def read_slot_def class_1_half_cleared_def class_0_cleared_def)
  have e: "\<not> positive_iff_stored class_1_half_cleared"
    by (simp add: positive_iff_stored_def upt_CLASS_COUNT)
       (simp add: class_1_half_cleared_def class_0_cleared_def)
  have f: "getNumExamples class_1_half_cleared = 1"
    by (simp add: getNumExamples_def class_1_half_cleared_def class_0_cleared_def)
  have g: "buildReferenceSet class_1_half_cleared = Inl TypeError"
    by (simp add: buildReferenceSet_def class_1_half_cleared_def class_0_cleared_def
        rebuild_loop_three clone_nd_def)
  have h: "animate first_k 12 class_1_half_cleared = (Threw TypeError class_1_half_cleared, NoCallback)"
  proof -
    have "\<not> isDown class_1_half_cleared" "trainLogitsMatrix class_1_half_cleared = None"
      by (simp_all add: class_1_half_cleared_def class_0_cleared_def)
    then show ?thesis
      by (simp add: animate_def f g)
  qed
  from a b c d e f g h show ?thesis by (intro conjI)
qed

subsection \<open>The feature vector, in exact arithmetic\<close>

text \<open>
  Over the reals, the vector \<open>captureFrameSqueezeNetLogits\<close> returns has Euclidean norm 1
  whenever some squashed logit is not zero. This says nothing on the rounding of the
  floats the code computes with.
\<close>

lemma map2_self: "map2 f xs xs = map (\<lambda>x. f x x) xs"
  by (induction xs) simp_all

lemma sum_squares_nonneg: "0 \<le> sum_list (map (\<lambda>x. x * x) (xs :: real list))"
  by (induction xs) simp_all

lemma sum_squares_pos:
  "\<exists>x\<in>set xs. x \<noteq> 0 \<Longrightarrow> 0 < sum_list (map (\<lambda>x. x * x) (xs :: real list))"
proof (induction xs)
  case Nil
  then show ?case by simp
next
  case (Cons a xs)
  show ?case
  proof (cases "a = 0")
    case True
    with Cons show ?thesis by simp
  next
    case False
    then have "0 < a * a" by (simp add: power2_eq_square[symmetric])
    with sum_squares_nonneg[of xs] show ?thesis by simp
  qed
qed

lemma sum_squares_scaled:
  "sum_list (map (\<lambda>x. (x / r) * (x / r)) xs) = sum_list (map (\<lambda>x. x * x) xs) / (r * r)"
  for r :: real
  by (induction xs) (simp_all add: add_divide_distrib)

lemma scaled_to_unit:
  fixes ys :: "real list"
  assumes "0 < sum_list (map (\<lambda>x. x * x) ys)"
  shows "sum_list (map (\<lambda>x. x * x) (map (\<lambda>x. x / sqrt (sum_list (map (\<lambda>x. x * x) ys))) ys)) = 1"
proof -
  define S where "S = sum_list (map (\<lambda>x. x * x) ys)"
  have "sum_list (map (\<lambda>x. x * x) (map (\<lambda>x. x / sqrt S) ys)) = S / (sqrt S * sqrt S)"
    using sum_squares_scaled[of "sqrt S" ys] by (simp add: comp_def S_def)
  also from assms have "\<dots> = 1" by (simp add: S_def)
  finally show ?thesis by (simp add: S_def)
qed

lemma captureFrameSqueezeNetLogits_norm:
  assumes "\<exists>x\<in>set logits. x / squashLogitsDenominator \<noteq> 0"
  shows "sqrt (sum_list (map (\<lambda>x. x * x) (captureFrameSqueezeNetLogits logits))) = 1"
proof -
  let ?sq = "map (\<lambda>x. x / squashLogitsDenominator) logits"
  from assms have "\<exists>x\<in>set ?sq. x \<noteq> 0" by auto
  then have pos: "0 < sum_list (map (\<lambda>x. x * x) ?sq)" by (rule sum_squares_pos)
  have "sum_list (map (\<lambda>x. x * x) (captureFrameSqueezeNetLogits logits)) = 1"
    unfolding captureFrameSqueezeNetLogits_def Let_def map2_self by (rule scaled_to_unit[OF pos])
  then show ?thesis by simp
qed

end
